theory Spec2Isabelle
  imports Main "HOL-Library.Multiset"
begin

section \<open>Calendar dates and the JavaScript clock\<close>

text \<open>
  The column \<open>transaction_date\<close> holds a calendar date (the form that writes it is an
  \<open>input type="date"\<close>). Months are numbered 1 to 12, as in the ISO text of a date.
\<close>

record date =
  dyear :: int
  dmonth :: nat
  dday :: nat

definition isLeapYear :: "int \<Rightarrow> bool" where
  "isLeapYear y = ((y mod 4 = 0 \<and> y mod 100 \<noteq> 0) \<or> y mod 400 = 0)"

definition daysInMonth :: "int \<Rightarrow> nat \<Rightarrow> nat" where
  "daysInMonth y m =
     (if m = 2 then (if isLeapYear y then 29 else 28)
      else if m = 4 \<or> m = 6 \<or> m = 9 \<or> m = 11 then 30 else 31)"

definition validDate :: "date \<Rightarrow> bool" where
  "validDate d = (1 \<le> dmonth d \<and> dmonth d \<le> 12 \<and> 1 \<le> dday d \<and> dday d \<le> daysInMonth (dyear d) (dmonth d))"

text \<open>The order of the store on dates: year, then month, then day.\<close>

definition date_le :: "date \<Rightarrow> date \<Rightarrow> bool" where
  "date_le a b =
     (dyear a < dyear b \<or>
      (dyear a = dyear b \<and> (dmonth a < dmonth b \<or> (dmonth a = dmonth b \<and> dday a \<le> dday b))))"

definition prevDay :: "date \<Rightarrow> date" where
  "prevDay d =
     (if 1 < dday d then d\<lparr>dday := dday d - 1\<rparr>
      else if 1 < dmonth d
        then \<lparr>dyear = dyear d, dmonth = dmonth d - 1, dday = daysInMonth (dyear d) (dmonth d - 1)\<rparr>
        else \<lparr>dyear = dyear d - 1, dmonth = 12, dday = 31\<rparr>)"

definition nextDay :: "date \<Rightarrow> date" where
  "nextDay d =
     (if dday d < daysInMonth (dyear d) (dmonth d) then d\<lparr>dday := dday d + 1\<rparr>
      else if dmonth d < 12
        then \<lparr>dyear = dyear d, dmonth = dmonth d + 1, dday = 1\<rparr>
        else \<lparr>dyear = dyear d + 1, dmonth = 1, dday = 1\<rparr>)"

text \<open>
  A JavaScript \<open>Date\<close> as the code reads it: its calendar fields in the zone of the
  runtime (\<open>setDate\<close>, \<open>setHours\<close>, \<open>startOfMonth\<close>, \<open>endOfMonth\<close>, \<open>subMonths\<close> and
  \<open>format\<close> all work on the local fields) and the milliseconds since local midnight.
\<close>

record jsDate =
  local :: date
  msOfDay :: int

text \<open>
  \<open>toISOString()\<close> writes the instant in UTC, which is the local time less the offset
  of the zone in force at that time. A zone gives, for each local time, its offset east
  of UTC in minutes (420 all year in Jakarta; 0 or 60 in London, by the season); no
  offset is as much as a day. \<open>isoDate\<close> is the date part of the text, which is what
  \<open>toISOString().split('T')[0]\<close> keeps and what a date column is compared with.
\<close>

type_synonym zone = "jsDate \<Rightarrow> int"

definition isoDate :: "zone \<Rightarrow> jsDate \<Rightarrow> date" where
  "isoDate tz t =
     (let utc = msOfDay t - tz t * 60000
      in if utc < 0 then prevDay (local t)
         else if 86400000 \<le> utc then nextDay (local t)
         else local t)"

text \<open>\<open>d.setDate(1); d.setHours(0, 0, 0, 0)\<close> and date-fns's \<open>startOfMonth\<close>.\<close>

definition startOfMonth :: "jsDate \<Rightarrow> jsDate" where
  "startOfMonth t = \<lparr>local = (local t)\<lparr>dday := 1\<rparr>, msOfDay = 0\<rparr>"

text \<open>date-fns's \<open>endOfMonth\<close>: the last day of the month at 23:59:59.999.\<close>

definition endOfMonth :: "jsDate \<Rightarrow> jsDate" where
  "endOfMonth t =
     \<lparr>local = (local t)\<lparr>dday := daysInMonth (dyear (local t)) (dmonth (local t))\<rparr>,
      msOfDay = 86399999\<rparr>"

text \<open>
  date-fns's \<open>subMonths(date, n)\<close> is \<open>addMonths(date, -n)\<close>: the month moves by \<open>n\<close>, the day
  of the month is kept unless the target month is shorter, where it becomes the last day
  of that month; the time of day is kept.
\<close>

definition monthIndex :: "date \<Rightarrow> int" where
  "monthIndex d = dyear d * 12 + (int (dmonth d) - 1)"

definition addMonths :: "jsDate \<Rightarrow> int \<Rightarrow> jsDate" where
  "addMonths t n =
     (let k = monthIndex (local t) + n;
          y = k div 12;
          m = nat (k mod 12) + 1
      in \<lparr>local = \<lparr>dyear = y, dmonth = m, dday = min (dday (local t)) (daysInMonth y m)\<rparr>,
          msOfDay = msOfDay t\<rparr>)"

definition subMonths :: "jsDate \<Rightarrow> nat \<Rightarrow> jsDate" where
  "subMonths t n = addMonths t (- int n)"

text \<open>
  \<open>format(date, 'MMM', { locale })\<close>: the abbreviated name of the month in the locale;
  \<open>localeID\<close> is the table of date-fns's Indonesian locale.
\<close>

definition localeID :: "string list" where
  "localeID = [''Jan'', ''Feb'', ''Mar'', ''Apr'', ''Mei'', ''Jun'',
               ''Jul'', ''Agt'', ''Sep'', ''Okt'', ''Nov'', ''Des'']"

definition format_MMM :: "string list \<Rightarrow> jsDate \<Rightarrow> string" where
  "format_MMM locale t = locale ! (dmonth (local t) - 1)"

section \<open>The rows of the store\<close>

record category =
  category_name :: string
  category_color :: "string option"

text \<open>
  A row of \<open>transactions\<close>, with the joined row of \<open>categories\<close> where the query asks
  for it (\<open>None\<close> when no category is linked). \<open>type\<close> arrives as text, or null.
  Amounts are whole currency units, held in a JavaScript number.
\<close>

record transaction =
  user_id :: string
  type :: "string option"
  amount :: int
  transaction_date :: date
  categories :: "category option"

text \<open>
  The owner column of the other two tables is \<open>user_id\<close> as well; the fields are named
  apart here.
\<close>

record bank_account =
  owner_id :: string
  balance :: int

record asset =
  holder_id :: string
  current_value :: int

record store =
  transactions :: "transaction list"
  bank_accounts :: "bank_account list"
  assets :: "asset list"

text \<open>What a query resolves to: \<open>{ data, error }\<close>.\<close>

record 'a response =
  data :: "'a list option"
  error :: "string option"

definition select :: "'a list \<Rightarrow> ('a \<Rightarrow> bool) \<Rightarrow> 'a response" where
  "select rows p = \<lparr>data = Some (filter p rows), error = None\<rparr>"

text \<open>\<open>x || 0\<close> on the result of an optional chain: \<open>undefined\<close> and \<open>0\<close> both give \<open>0\<close>.\<close>

definition orZero :: "int option \<Rightarrow> int" where
  "orZero v = (case v of None \<Rightarrow> 0 | Some x \<Rightarrow> if x = 0 then 0 else x)"

section \<open>Sums of JavaScript numbers\<close>

text \<open>
  A JavaScript number is a double. On whole values, \<open>a + b\<close> is the exact sum rounded to
  the nearest double, a tie going to the even significand: up to \<open>2^53\<close> every whole
  number is a double, from there to \<open>2^54\<close> every second one, and so on. \<open>ulp m\<close> is the
  distance between the doubles at the magnitude \<open>m\<close> (overflow beyond the largest double
  is left aside).
\<close>

function ulp :: "int \<Rightarrow> int" where
  "ulp m = (if m < 9007199254740992 then 1 else 2 * ulp (m div 2))"
  by pat_completeness auto
termination
  by (relation "measure nat") auto

definition roundNumber :: "int \<Rightarrow> int" where
  "roundNumber n =
     (let m = \<bar>n\<bar>; u = ulp m; q = m div u; r = m mod u;
          v = (if u < 2 * r \<or> (2 * r = u \<and> odd q) then (q + 1) * u else q * u)
      in if n < 0 then - v else v)"

definition plusNumber :: "int \<Rightarrow> int \<Rightarrow> int" where
  "plusNumber a b = roundNumber (a + b)"

text \<open>The sum of a list as a loop adds it: from 0, one element after the other.\<close>

definition sumInOrder :: "int list \<Rightarrow> int" where
  "sumInOrder as = foldl plusNumber 0 as"

text \<open>
  The sums of the dashboard and of the monthly series below are written with the exact
  \<open>+\<close>: they are taken on amounts whose sums stay below \<open>2^53\<close>, where the two agree
  (\<open>sumInOrder_exact\<close>). The totals of the breakdown by category are added with
  \<open>plusNumber\<close>, since they are compared across orders of the rows.
\<close>

section \<open>Dashboard: \<open>fetchSummaryData\<close>\<close>

record SummaryData =
  totalIncome :: int
  totalExpense :: int
  totalBankBalance :: int
  totalAssets :: int

text \<open>\<open>transactions?.filter((t) => t.type === k).reduce((sum, t) => sum + Number(t.amount), 0) || 0\<close>\<close>

definition sumOfType :: "string \<Rightarrow> transaction list option \<Rightarrow> int" where
  "sumOfType k rows =
     orZero (map_option (\<lambda>ts. foldl (\<lambda>sum t. sum + amount t) 0 (filter (\<lambda>t. type t = Some k) ts)) rows)"

definition bankBalance :: "bank_account list option \<Rightarrow> int" where
  "bankBalance accounts = orZero (map_option (foldl (\<lambda>sum a. sum + balance a) 0) accounts)"

definition assetsTotal :: "asset list option \<Rightarrow> int" where
  "assetsTotal as = orZero (map_option (foldl (\<lambda>sum a. sum + current_value a) 0) as)"

text \<open>
  The query of the dashboard for the transactions of the month: owner, and
  \<open>transaction_date >= startOfMonth.toISOString().split('T')[0]\<close>. It has no upper bound.
\<close>

definition summaryQuery :: "zone \<Rightarrow> jsDate \<Rightarrow> string \<Rightarrow> store \<Rightarrow> transaction response" where
  "summaryQuery tz now uid s =
     select (transactions s)
       (\<lambda>t. user_id t = uid \<and> date_le (isoDate tz (startOfMonth now)) (transaction_date t))"

text \<open>
  \<open>fetchSummaryData\<close>, with the reading of \<open>new Date()\<close> as \<open>now\<close> and the signed-in user
  as \<open>uid\<close>. No statement of its \<open>try\<close> block throws, so the summary is always set.
\<close>

definition fetchSummaryData :: "zone \<Rightarrow> jsDate \<Rightarrow> string \<Rightarrow> store \<Rightarrow> SummaryData" where
  "fetchSummaryData tz now uid s =
     (let transactions = data (summaryQuery tz now uid s);
          income = sumOfType ''income'' transactions;
          expense = sumOfType ''expense'' transactions;
          accounts = data (select (bank_accounts s) (\<lambda>a. owner_id a = uid));
          assets = data (select (assets s) (\<lambda>a. holder_id a = uid))
      in \<lparr>totalIncome = income, totalExpense = expense,
          totalBankBalance = bankBalance accounts, totalAssets = assetsTotal assets\<rparr>)"

section \<open>Reports: \<open>fetchReportData\<close>\<close>

record MonthlySummary =
  month :: string
  income :: int
  expense :: int

record CategoryExpense =
  name :: string
  "value" :: int
  color :: string

datatype error = StoreError string | TypeError

definition COLORS :: "string list" where
  "COLORS = [''#6366F1'', ''#8B5CF6'', ''#EC4899'', ''#F59E0B'', ''#10B981'', ''#3B82F6'']"

text \<open>
  The query of one month of the bar chart: owner,
  \<open>transaction_date >= startOfMonth(date).toISOString()\<close> and
  \<open>transaction_date <= endOfMonth(date).toISOString()\<close>. The store reads each bound as
  a date, which keeps the date part of the text.
\<close>

definition monthQuery :: "zone \<Rightarrow> jsDate \<Rightarrow> string \<Rightarrow> store \<Rightarrow> transaction response" where
  "monthQuery tz date uid s =
     select (transactions s)
       (\<lambda>t. user_id t = uid
            \<and> date_le (isoDate tz (startOfMonth date)) (transaction_date t)
            \<and> date_le (transaction_date t) (isoDate tz (endOfMonth date)))"

text \<open>
  The loop \<open>for (let i = 5; i >= 0; i--)\<close>. \<open>clock k\<close> is what the \<open>k\<close>-th call of
  \<open>new Date()\<close> in \<open>fetchReportData\<close> returns: the loop makes calls 0 to 5, the labels
  calls 6 to 11 and the pie chart call 12.
\<close>

definition monthlyResults :: "zone \<Rightarrow> (nat \<Rightarrow> jsDate) \<Rightarrow> string \<Rightarrow> store \<Rightarrow> transaction response list" where
  "monthlyResults tz clock uid s =
     map (\<lambda>i. monthQuery tz (subMonths (clock (5 - i)) i) uid s) (rev [0..<6])"

text \<open>\<open>monthlyResults.map((result, i) => ...)\<close>\<close>

definition summaryData :: "(nat \<Rightarrow> jsDate) \<Rightarrow> transaction response list \<Rightarrow> MonthlySummary list" where
  "summaryData clock results =
     map (\<lambda>(i, result).
            \<lparr>month = format_MMM localeID (subMonths (clock (6 + i)) (5 - i)),
             income = sumOfType ''income'' (data result),
             expense = sumOfType ''expense'' (data result)\<rparr>)
         (enumerate 0 results)"

text \<open>The query of the pie chart: owner, expenses, from the start of the month on.\<close>

definition pieQuery :: "zone \<Rightarrow> jsDate \<Rightarrow> string \<Rightarrow> store \<Rightarrow> transaction response" where
  "pieQuery tz now uid s =
     select (transactions s)
       (\<lambda>t. user_id t = uid \<and> type t = Some ''expense''
            \<and> date_le (isoDate tz (startOfMonth now)) (transaction_date t))"

text \<open>\<open>t.categories?.name || 'Lain-lain'\<close> and \<open>t.categories?.color || '#8884d8'\<close>\<close>

definition categoryName :: "transaction \<Rightarrow> string" where
  "categoryName t =
     (case categories t of
        None \<Rightarrow> ''Lain-lain''
      | Some c \<Rightarrow> if category_name c = [] then ''Lain-lain'' else category_name c)"

definition colorOrDefault :: "transaction \<Rightarrow> string" where
  "colorOrDefault t =
     (case categories t of
        None \<Rightarrow> ''#8884d8''
      | Some c \<Rightarrow>
          (case category_color c of
             None \<Rightarrow> ''#8884d8''
           | Some col \<Rightarrow> if col = [] then ''#8884d8'' else col))"

text \<open>
  \<open>expenseByCategory\<close> is a plain object: its own properties, in the order of their
  creation, each holding \<open>(value, color)\<close>. A read \<open>expenseByCategory[key]\<close> also finds
  what the object inherits from \<open>Object.prototype\<close>, and each of these is truthy.
\<close>

definition objectPrototype :: "string list" where
  "objectPrototype =
     [''constructor'', ''__defineGetter__'', ''__defineSetter__'', ''hasOwnProperty'',
      ''__lookupGetter__'', ''__lookupSetter__'', ''isPrototypeOf'', ''propertyIsEnumerable'',
      ''toString'', ''valueOf'', ''__proto__'', ''toLocaleString'']"

text \<open>
  The body of the \<open>forEach\<close>. Under an inherited name the test \<open>!expenseByCategory[categoryName]\<close>
  is false and the \<open>+=\<close> writes to the inherited object: no own property is created.
\<close>

definition accumulate :: "(string \<times> int \<times> string) list \<Rightarrow> transaction \<Rightarrow> (string \<times> int \<times> string) list" where
  "accumulate obj t =
     (if categoryName t \<in> set objectPrototype then obj
      else
        (let obj1 = (if map_of obj (categoryName t) = None
                     then obj @ [(categoryName t, 0, colorOrDefault t)] else obj)
         in map (\<lambda>(key, v, c). if key = categoryName t then (key, plusNumber v (amount t), c)
                              else (key, v, c)) obj1))"

definition expenseByCategory :: "transaction list \<Rightarrow> (string \<times> int \<times> string) list" where
  "expenseByCategory ts = foldl accumulate [] ts"

text \<open>
  \<open>Object.keys\<close> lists the keys that are array indices first (canonical decimal numbers
  below \<open>2^32 - 1\<close>), in ascending order, then the other keys in the order of their creation.
\<close>

definition isDigit :: "char \<Rightarrow> bool" where
  "isDigit c = (48 \<le> (of_char c :: nat) \<and> (of_char c :: nat) \<le> 57)"

definition numberOf :: "string \<Rightarrow> int" where
  "numberOf k = foldl (\<lambda>n c. 10 * n + (of_char c - 48)) 0 k"

definition isArrayIndex :: "string \<Rightarrow> bool" where
  "isArrayIndex k =
     (k \<noteq> [] \<and> list_all isDigit k \<and> (k = ''0'' \<or> hd k \<noteq> CHR ''0'') \<and> numberOf k < 4294967295)"

definition ownEntries :: "(string \<times> 'a) list \<Rightarrow> (string \<times> 'a) list" where
  "ownEntries obj =
     sort_key (\<lambda>e. numberOf (fst e)) (filter (\<lambda>e. isArrayIndex (fst e)) obj)
     @ filter (\<lambda>e. \<not> isArrayIndex (fst e)) obj"

text \<open>
  \<open>Object.keys(expenseByCategory).map(key => ({ name: key, ... }))\<close>: one entry for each
  own property, in the order of the keys.
\<close>

definition pieData :: "(string \<times> int \<times> string) list \<Rightarrow> CategoryExpense list" where
  "pieData obj = map (\<lambda>(key, v, c). \<lparr>name = key, value = v, color = c\<rparr>) (ownEntries obj)"

definition categoryBreakdown :: "transaction list \<Rightarrow> CategoryExpense list" where
  "categoryBreakdown ts = pieData (expenseByCategory ts)"

text \<open>The fill of each cell of the chart: \<open>entry.color || COLORS[index % COLORS.length]\<close>.\<close>

definition cellFills :: "CategoryExpense list \<Rightarrow> string list" where
  "cellFills categoryData =
     map (\<lambda>(index, entry). if color entry \<noteq> [] then color entry
                             else COLORS ! (index mod length COLORS))
         (enumerate 0 categoryData)"

text \<open>
  The second half of \<open>fetchReportData\<close>: \<open>if (error) throw error\<close>, then the grouping.
  A null \<open>data\<close> without an error would make \<open>forEach\<close> throw a \<open>TypeError\<close>. What is
  thrown is caught and logged, and the pie chart is not set.
\<close>

definition pieChart :: "transaction response \<Rightarrow> error + CategoryExpense list" where
  "pieChart r =
     (case error r of
        Some e \<Rightarrow> Inl (StoreError e)
      | None \<Rightarrow>
          (case data r of
             None \<Rightarrow> Inl TypeError
           | Some currentMonthTransactions \<Rightarrow> Inr (categoryBreakdown currentMonthTransactions)))"

text \<open>\<open>fetchReportData\<close>: the six months are set first, then the pie chart.\<close>

definition fetchReportData ::
    "zone \<Rightarrow> (nat \<Rightarrow> jsDate) \<Rightarrow> string \<Rightarrow> store \<Rightarrow> MonthlySummary list \<times> (error + CategoryExpense list)" where
  "fetchReportData tz clock uid s =
     (let monthlyData = summaryData clock (monthlyResults tz clock uid s)
      in (monthlyData, pieChart (pieQuery tz (clock 12) uid s)))"

text \<open>The rows that the aggregates keep: those whose kind is in the closed set.\<close>

definition knownKind :: "transaction \<Rightarrow> bool" where
  "knownKind t = (type t = Some ''income'' \<or> type t = Some ''expense'')"

section \<open>Sample data\<close>

text \<open>A zone with one offset all year, and London during 2024.\<close>

definition fixedOffset :: "int \<Rightarrow> zone" where
  "fixedOffset minutes t = minutes"

definition londonIn2024 :: zone where
  "londonIn2024 t =
     (if (date_le \<lparr>dyear = 2024, dmonth = 4, dday = 1\<rparr> (local t)
          \<or> (local t = \<lparr>dyear = 2024, dmonth = 3, dday = 31\<rparr> \<and> 7200000 \<le> msOfDay t))
         \<and> (date_le (local t) \<lparr>dyear = 2024, dmonth = 10, dday = 26\<rparr>
          \<or> (local t = \<lparr>dyear = 2024, dmonth = 10, dday = 27\<rparr> \<and> msOfDay t < 3600000))
      then 60 else 0)"

definition ymd :: "int \<Rightarrow> nat \<Rightarrow> nat \<Rightarrow> date" where
  "ymd y m d = \<lparr>dyear = y, dmonth = m, dday = d\<rparr>"

definition noonOn :: "date \<Rightarrow> jsDate" where
  "noonOn d = \<lparr>local = d, msOfDay = 43200000\<rparr>"

text \<open>A clock that shows the same reading at every call.\<close>

definition steadyClock :: "jsDate \<Rightarrow> nat \<Rightarrow> jsDate" where
  "steadyClock now k = now"

text \<open>
  A clock that passes the midnight before 1 June 2024 between its third and its fourth
  reading.
\<close>

definition midnightClock :: "nat \<Rightarrow> jsDate" where
  "midnightClock k =
     (if k < 3 then \<lparr>local = \<lparr>dyear = 2024, dmonth = 5, dday = 31\<rparr>, msOfDay = 86399999\<rparr>
      else \<lparr>local = \<lparr>dyear = 2024, dmonth = 6, dday = 1\<rparr>, msOfDay = 0\<rparr>)"

definition txRow :: "string \<Rightarrow> int \<Rightarrow> date \<Rightarrow> transaction" where
  "txRow k a d =
     \<lparr>user_id = ''u1'', type = Some k, amount = a, transaction_date = d, categories = None\<rparr>"

definition expenseRow :: "category option \<Rightarrow> int \<Rightarrow> transaction" where
  "expenseRow c a =
     \<lparr>user_id = ''u1'', type = Some ''expense'', amount = a,
      transaction_date = ymd 2024 5 12, categories = c\<rparr>"

definition linked :: "string \<Rightarrow> string option \<Rightarrow> category option" where
  "linked n c = Some \<lparr>category_name = n, category_color = c\<rparr>"

definition storeOf :: "transaction list \<Rightarrow> store" where
  "storeOf ts = \<lparr>transactions = ts, bank_accounts = [], assets = []\<rparr>"

section \<open>Sums and the shape of the results\<close>

lemma foldl_plus: "foldl (\<lambda>sum a. sum + f a) z xs = z + sum_list (map f xs)" for z :: int
  by (induction xs arbitrary: z) simp_all

lemma orZero_Some: "orZero (Some x) = x"
  by (simp add: orZero_def)

lemma sumOfType_Some:
  "sumOfType k (Some ts) = sum_list (map amount (filter (\<lambda>t. type t = Some k) ts))"
  by (simp add: sumOfType_def orZero_def foldl_plus)

lemma sumOfType_None: "sumOfType k None = 0"
  by (simp add: sumOfType_def orZero_def)





lemma length_monthlyResults: "length (monthlyResults tz clock uid s) = 6"
  by (simp add: monthlyResults_def)

lemma length_summaryData: "length (summaryData clock results) = length results"
  by (simp add: summaryData_def)

lemma summaryData_nth:
  "i < length results \<Longrightarrow>
   summaryData clock results ! i =
     \<lparr>month = format_MMM localeID (subMonths (clock (6 + i)) (5 - i)),
      income = sumOfType ''income'' (data (results ! i)),
      expense = sumOfType ''expense'' (data (results ! i))\<rparr>"
  by (simp add: summaryData_def nth_enumerate_eq)

section \<open>Point-in-time totals and empty input\<close>


section \<open>Monthly totals\<close>

text \<open>
  C1 (the code departs from the claim): the query of the dashboard bounds the date from
  below only. With the clock at 2024-05-15 in a UTC runtime, an expense of 250 dated
  2024-06-01 is added to the expense of May: the total is 650, where the sum over the
  rows dated within May is 400. The April expense is left out.
\<close>

theorem monthly_totals_future_row:
  "fetchSummaryData (fixedOffset 0) (noonOn (ymd 2024 5 15)) ''u1''
     (storeOf [txRow ''income'' 1000 (ymd 2024 5 10), txRow ''expense'' 400 (ymd 2024 5 12),
               txRow ''expense'' 200 (ymd 2024 4 1), txRow ''expense'' 250 (ymd 2024 6 1)])
   = \<lparr>totalIncome = 1000, totalExpense = 650, totalBankBalance = 0, totalAssets = 0\<rparr>"
  by code_simp

section \<open>Rows of an unknown kind\<close>

lemma sumOfType_known:
  "k = ''income'' \<or> k = ''expense'' \<Longrightarrow>
   sumOfType k (Some (filter (\<lambda>t. knownKind t \<and> p t) ts)) = sumOfType k (Some (filter p ts))"
  by (induction ts) (auto simp add: sumOfType_Some knownKind_def)

lemma expense_filter_known:
  "filter (\<lambda>t. knownKind t \<and> q t \<and> type t = Some ''expense'' \<and> p t) ts
   = filter (\<lambda>t. q t \<and> type t = Some ''expense'' \<and> p t) ts"
  by (induction ts) (auto simp add: knownKind_def)

text \<open>
  C2 (as stated it fails): with an income of 1000, a row of kind \<open>transfer\<close> and a row
  whose kind is null, all dated in May 2024, the monthly totals and the trailing series
  are returned as usual, and the two rows are in neither total.
\<close>

theorem unknown_kind_counterexample:
  "fetchSummaryData (fixedOffset 0) (noonOn (ymd 2024 5 15)) ''u1''
     (storeOf [txRow ''income'' 1000 (ymd 2024 5 10), txRow ''transfer'' 50 (ymd 2024 5 11),
               (txRow ''income'' 70 (ymd 2024 5 12))\<lparr>type := None\<rparr>])
   = \<lparr>totalIncome = 1000, totalExpense = 0, totalBankBalance = 0, totalAssets = 0\<rparr>
   \<and> fst (fetchReportData (fixedOffset 0) (steadyClock (noonOn (ymd 2024 5 15))) ''u1''
     (storeOf [txRow ''income'' 1000 (ymd 2024 5 10), txRow ''transfer'' 50 (ymd 2024 5 11),
               (txRow ''income'' 70 (ymd 2024 5 12))\<lparr>type := None\<rparr>]))
   = [\<lparr>month = ''Des'', income = 0, expense = 0\<rparr>, \<lparr>month = ''Jan'', income = 0, expense = 0\<rparr>,
      \<lparr>month = ''Feb'', income = 0, expense = 0\<rparr>, \<lparr>month = ''Mar'', income = 0, expense = 0\<rparr>,
      \<lparr>month = ''Apr'', income = 0, expense = 0\<rparr>, \<lparr>month = ''Mei'', income = 1000, expense = 0\<rparr>]"
  by code_simp

text \<open>
  C2, amended: a row whose kind is missing or outside the closed set is left out of the
  totals and no error is raised: the summary of the dashboard and the whole report (the
  trailing series and the breakdown) are what they are for the store without such rows.
\<close>

theorem unknown_kind_dropped:
  "fetchSummaryData tz now uid (s\<lparr>transactions := filter knownKind (transactions s)\<rparr>)
     = fetchSummaryData tz now uid s
   \<and> fetchReportData tz clock uid (s\<lparr>transactions := filter knownKind (transactions s)\<rparr>)
     = fetchReportData tz clock uid s"
  by (simp add: fetchSummaryData_def fetchReportData_def summaryQuery_def pieQuery_def select_def
      pieChart_def summaryData_def monthlyResults_def monthQuery_def sumOfType_known expense_filter_known
      enumerate_eq_zip upt_rec Let_def)

section \<open>The colour of a group\<close>

text \<open>
  C3 (the code departs from the claim): for one expense of 100 with no category, the
  breakdown holds the group \<open>Lain-lain\<close> with the colour \<open>#8884d8\<close>, which
  \<open>fetchReportData\<close> has put in place of the missing colour; the cell is filled with it,
  and the entry of the palette at the position of the group, \<open>#6366F1\<close>, is not used.
\<close>

theorem palette_not_reached:
  "snd (fetchReportData (fixedOffset 0) (steadyClock (noonOn (ymd 2024 5 15))) ''u1'' (storeOf [expenseRow None 100]))
     = Inr [\<lparr>name = ''Lain-lain'', value = 100, color = ''#8884d8''\<rparr>]
   \<and> cellFills [\<lparr>name = ''Lain-lain'', value = 100, color = ''#8884d8''\<rparr>] = [''#8884d8'']
   \<and> COLORS ! (0 mod length COLORS) = ''#6366F1''"
  by code_simp

section \<open>Where the sums of numbers are exact\<close>

lemma ulp_small: "m < 9007199254740992 \<Longrightarrow> ulp m = 1"
  by (subst ulp.simps) simp

lemma roundNumber_exact: "\<bar>n\<bar> < 9007199254740992 \<Longrightarrow> roundNumber n = n"
  by (simp add: roundNumber_def ulp_small Let_def)

lemma plusNumber_exact: "\<bar>a + b\<bar> < 9007199254740992 \<Longrightarrow> plusNumber a b = a + b"
  by (simp add: plusNumber_def roundNumber_exact)

lemma foldl_plusNumber_exact:
  "\<bar>z\<bar> + sum_list (map abs as) < 9007199254740992 \<Longrightarrow> foldl plusNumber z as = z + sum_list as"
proof (induction as arbitrary: z)
  case Nil
  show ?case by simp
next
  case (Cons a as)
  have b: "\<bar>z + a\<bar> \<le> \<bar>z\<bar> + \<bar>a\<bar>" by simp
  have n: "0 \<le> sum_list (map abs as)" by (induction as) simp_all
  from Cons.prems b n have p: "plusNumber z a = z + a"
    by (intro plusNumber_exact) simp
  from Cons.prems b have "\<bar>z + a\<bar> + sum_list (map abs as) < 9007199254740992"
    by simp
  from Cons.IH [OF this] p show ?case by simp
qed

lemma sumInOrder_exact:
  "sum_list (map abs as) < 9007199254740992 \<Longrightarrow> sumInOrder as = sum_list as"
  using foldl_plusNumber_exact [of 0 as] by (simp add: sumInOrder_def)

lemma sumInOrder_snoc: "sumInOrder (as @ [a]) = plusNumber (sumInOrder as) a"
  by (simp add: sumInOrder_def)

lemma sumInOrder_Nil: "sumInOrder [] = 0"
  by (simp add: sumInOrder_def)

lemma abs_filter_le:
  "sum_list (map abs (map f (filter P xs))) \<le> sum_list (map (\<lambda>x. \<bar>f x\<bar>) xs)" for f :: "'a \<Rightarrow> int"
  by (induction xs) (simp_all add: add_increasing)

lemma sumInOrder_filter_exact:
  "sum_list (map (\<lambda>x. \<bar>f x\<bar>) xs) < 9007199254740992 \<Longrightarrow>
   sumInOrder (map f (filter P xs)) = sum_list (map f (filter P xs))"
  using abs_filter_le [of f P xs] by (intro sumInOrder_exact) simp

section \<open>The breakdown by category\<close>

text \<open>
  The object that the \<open>forEach\<close> builds, by induction on the rows read so far: its keys
  are distinct, they are the names of the rows apart from the names that a plain object
  inherits, and each key holds the total of the amounts of its rows, added in their
  order, with the colour of the first of them.
\<close>

lemma find_snoc:
  "find P (xs @ [x]) = (case find P xs of Some y \<Rightarrow> Some y | None \<Rightarrow> if P x then Some x else None)"
  by (induction xs) simp_all

lemma find_None_filter: "find P xs = None \<Longrightarrow> filter P xs = []"
  by (simp add: find_None_iff filter_empty_conv)

lemma expenseByCategory_snoc:
  "expenseByCategory (ts @ [t]) = accumulate (expenseByCategory ts) t"
  by (simp add: expenseByCategory_def)

lemma keys_bump:
  "map fst (map (\<lambda>(key, v, c). if key = n then (key, plusNumber v a, c) else (key, v, c)) obj) = map fst obj"
  for obj :: "(string \<times> int \<times> string) list"
  by (induction obj) auto

lemma map_of_bump_same:
  "map_of (map (\<lambda>(key, v, c). if key = n then (key, plusNumber v a, c) else (key, v, c)) obj) n
   = map_option (\<lambda>(v, c). (plusNumber v a, c)) (map_of obj n)"
  for obj :: "(string \<times> int \<times> string) list"
  by (induction obj) (simp_all add: case_prod_beta)

lemma map_of_bump_other:
  "k \<noteq> n \<Longrightarrow>
   map_of (map (\<lambda>(key, v, c). if key = n then (key, plusNumber v a, c) else (key, v, c)) obj) k
   = map_of obj k"
  for obj :: "(string \<times> int \<times> string) list"
  by (induction obj) (simp_all add: case_prod_beta)

lemma accumulate_keys:
  "map fst (accumulate obj t) =
     (if categoryName t \<in> set objectPrototype \<or> categoryName t \<in> fst ` set obj
      then map fst obj else map fst obj @ [categoryName t])"
  by (auto simp add: accumulate_def keys_bump map_of_eq_None_iff)

lemma accumulate_inherited:
  "categoryName t \<in> set objectPrototype \<Longrightarrow> accumulate obj t = obj"
  by (simp add: accumulate_def)

lemma accumulate_map_of_other:
  "k \<noteq> categoryName t \<Longrightarrow> map_of (accumulate obj t) k = map_of obj k"
  by (simp add: accumulate_def map_of_bump_other Let_def map_add_def split: option.splits)

lemma accumulate_map_of_same:
  "categoryName t \<notin> set objectPrototype \<Longrightarrow>
   map_of (accumulate obj t) (categoryName t) =
     (case map_of obj (categoryName t) of
        None \<Rightarrow> Some (plusNumber 0 (amount t), colorOrDefault t)
      | Some (v, c) \<Rightarrow> Some (plusNumber v (amount t), c))"
  by (simp add: accumulate_def map_of_bump_same Let_def map_add_def split: option.splits)

lemma expenseByCategory_keys:
  "distinct (map fst (expenseByCategory ts))
   \<and> set (map fst (expenseByCategory ts)) = categoryName ` set ts - set objectPrototype"
proof (induction ts rule: rev_induct)
  case Nil
  show ?case by (simp add: expenseByCategory_def)
next
  case (snoc t ts)
  then show ?case
    by (auto simp add: expenseByCategory_snoc accumulate_keys)
qed

lemma expenseByCategory_map_of:
  "map_of (expenseByCategory ts) k =
     (if k \<in> set objectPrototype then None
      else map_option
             (\<lambda>t. (sumInOrder (map amount (filter (\<lambda>t. categoryName t = k) ts)), colorOrDefault t))
             (find (\<lambda>t. categoryName t = k) ts))"
proof (induction ts rule: rev_induct)
  case Nil
  show ?case by (simp add: expenseByCategory_def)
next
  case (snoc t ts)
  have one: "sumInOrder [a] = plusNumber 0 a" for a
    by (simp add: sumInOrder_def)
  show ?case
  proof (cases "k = categoryName t")
    case False
    then show ?thesis
      using snoc
      by (auto simp add: expenseByCategory_snoc accumulate_map_of_other find_snoc
          split: option.splits)
  next
    case True
    show ?thesis
    proof (cases "categoryName t \<in> set objectPrototype")
      case True
      with \<open>k = categoryName t\<close> snoc show ?thesis
        by (simp add: expenseByCategory_snoc accumulate_inherited)
    next
      case False
      with \<open>k = categoryName t\<close> snoc show ?thesis
        by (auto simp add: expenseByCategory_snoc accumulate_map_of_same find_snoc
            find_None_filter sumInOrder_snoc sumInOrder_Nil one split: option.splits)
    qed
  qed
qed

lemma mset_ownEntries: "mset (ownEntries obj) = mset obj"
  by (simp add: ownEntries_def)

lemma set_ownEntries: "set (ownEntries obj) = set obj"
  using mset_ownEntries [of obj] by (metis set_mset_mset)


lemma find_append_first:
  "find P (xs @ ys) = (case find P xs of Some x \<Rightarrow> Some x | None \<Rightarrow> find P ys)"
  by (induction xs) simp_all

lemma sum_list_filter_mset:
  "sum_list (map f (filter P xs)) = sum_mset (image_mset f (filter_mset P (mset xs)))"
  by (metis mset_filter mset_map sum_mset_sum_list)

lemma set_categoryBreakdown:
  "set (categoryBreakdown ts)
   = (\<lambda>(key, v, c). \<lparr>name = key, value = v, color = c\<rparr>) ` set (expenseByCategory ts)"
  by (simp add: categoryBreakdown_def pieData_def set_ownEntries)

lemma names_categoryBreakdown:
  "mset (map name (categoryBreakdown ts)) = mset (map fst (expenseByCategory ts))"
proof -
  have "map name (categoryBreakdown ts) = map fst (ownEntries (expenseByCategory ts))"
    by (simp add: categoryBreakdown_def pieData_def case_prod_beta)
  then show ?thesis
    by (simp add: mset_ownEntries del: mset_map) (metis mset_map mset_ownEntries)
qed


lemma set_names:
  "set (map name (categoryBreakdown ts)) = categoryName ` set ts - set objectPrototype"
  using names_categoryBreakdown [of ts] expenseByCategory_keys [of ts]
  by (metis mset_eq_setD)

lemma group_lookup:
  assumes "g \<in> set (categoryBreakdown ts)"
  shows "map_of (expenseByCategory ts) (name g) = Some (value g, color g)"
proof -
  from assms obtain key v c where e: "(key, v, c) \<in> set (expenseByCategory ts)"
    and g: "g = \<lparr>name = key, value = v, color = c\<rparr>"
    by (auto simp add: set_categoryBreakdown)
  from e have "map_of (expenseByCategory ts) key = Some (v, c)"
    using expenseByCategory_keys [of ts] by simp
  with g show ?thesis by simp
qed

lemma group_facts:
  assumes "g \<in> set (categoryBreakdown ts)"
  shows "name g \<notin> set objectPrototype
       \<and> (\<exists>t. find (\<lambda>t. categoryName t = name g) ts = Some t \<and> color g = colorOrDefault t)
       \<and> value g = sumInOrder (map amount (filter (\<lambda>t. categoryName t = name g) ts))"
  using group_lookup [OF assms]
  by (auto simp add: expenseByCategory_map_of split: if_splits)

lemma sum_filter_either:
  "(\<And>x. \<not> (P x \<and> Q x)) \<Longrightarrow>
   sum_list (map f (filter (\<lambda>x. P x \<or> Q x) xs))
   = sum_list (map f (filter P xs)) + sum_list (map f (filter Q xs))" for f :: "'a \<Rightarrow> int"
  by (induction xs) auto

lemma sum_by_key:
  "distinct ks \<Longrightarrow>
   sum_list (map (\<lambda>k. sum_list (map f (filter (\<lambda>x. h x = k) xs))) ks)
   = sum_list (map f (filter (\<lambda>x. h x \<in> set ks) xs))" for f :: "'a \<Rightarrow> int"
proof (induction ks)
  case Nil
  show ?case by simp
next
  case (Cons k ks)
  have "sum_list (map f (filter (\<lambda>x. h x = k \<or> h x \<in> set ks) xs))
      = sum_list (map f (filter (\<lambda>x. h x = k) xs)) + sum_list (map f (filter (\<lambda>x. h x \<in> set ks) xs))"
    using Cons.prems by (intro sum_filter_either) auto
  with Cons show ?case by simp
qed

lemma values_of_entries:
  "map value (categoryBreakdown ts) = map (\<lambda>(key, v, c). v) (ownEntries (expenseByCategory ts))"
  by (simp add: categoryBreakdown_def pieData_def case_prod_beta)

lemma breakdown_sum:
  assumes "sum_list (map (\<lambda>t. \<bar>amount t\<bar>) ts) < 9007199254740992"
  shows "sum_list (map value (categoryBreakdown ts))
         = sum_list (map amount (filter (\<lambda>t. categoryName t \<notin> set objectPrototype) ts))"
proof -
  have "sum_list (map value (categoryBreakdown ts))
      = sum_mset (image_mset (\<lambda>(key, v, c). v) (mset (ownEntries (expenseByCategory ts))))"
    unfolding values_of_entries by (metis mset_map sum_mset_sum_list)
  also have "\<dots> = sum_list (map (\<lambda>(key, v, c). v) (expenseByCategory ts))"
    unfolding mset_ownEntries by (metis mset_map sum_mset_sum_list)
  also have "map (\<lambda>(key, v, c). v) (expenseByCategory ts)
      = map (\<lambda>k. sum_list (map amount (filter (\<lambda>t. categoryName t = k) ts)))
          (map fst (expenseByCategory ts))"
  proof (simp only: map_map, rule map_cong [OF refl])
    fix e
    assume e: "e \<in> set (expenseByCategory ts)"
    obtain key v c where k: "e = (key, v, c)" by (cases e) auto
    with e have "map_of (expenseByCategory ts) key = Some (v, c)"
      using expenseByCategory_keys [of ts] by simp
    then have "v = sumInOrder (map amount (filter (\<lambda>t. categoryName t = key) ts))"
      by (auto simp add: expenseByCategory_map_of split: if_splits)
    with k show "(case e of (key, v, c) \<Rightarrow> v)
        = ((\<lambda>k. sum_list (map amount (filter (\<lambda>t. categoryName t = k) ts))) \<circ> fst) e"
      by (simp add: sumInOrder_filter_exact [OF assms])
  qed
  also have "sum_list (map (\<lambda>k. sum_list (map amount (filter (\<lambda>t. categoryName t = k) ts)))
          (map fst (expenseByCategory ts)))
      = sum_list (map amount (filter (\<lambda>t. categoryName t \<in> set (map fst (expenseByCategory ts))) ts))"
    using expenseByCategory_keys [of ts] by (intro sum_by_key) simp
  also have "filter (\<lambda>t. categoryName t \<in> set (map fst (expenseByCategory ts))) ts
      = filter (\<lambda>t. categoryName t \<notin> set objectPrototype) ts"
    by (rule filter_cong) (use expenseByCategory_keys [of ts] in auto)
  finally show ?thesis .
qed

lemma name_value_pairs:
  "(\<lambda>g. (name g, value g)) ` set (categoryBreakdown ts)
   = (\<lambda>k. (k, sumInOrder (map amount (filter (\<lambda>t. categoryName t = k) ts))))
       ` (categoryName ` set ts - set objectPrototype)"
proof (intro set_eqI iffI)
  fix p
  assume "p \<in> (\<lambda>g. (name g, value g)) ` set (categoryBreakdown ts)"
  then obtain g where g: "g \<in> set (categoryBreakdown ts)" and p: "p = (name g, value g)"
    by auto
  from g have "name g \<in> categoryName ` set ts - set objectPrototype"
    using set_names [of ts] by (metis image_eqI set_map)
  with group_facts [OF g] p
  show "p \<in> (\<lambda>k. (k, sumInOrder (map amount (filter (\<lambda>t. categoryName t = k) ts))))
       ` (categoryName ` set ts - set objectPrototype)"
    by auto
next
  fix p
  assume "p \<in> (\<lambda>k. (k, sumInOrder (map amount (filter (\<lambda>t. categoryName t = k) ts))))
       ` (categoryName ` set ts - set objectPrototype)"
  then obtain k where k: "k \<in> categoryName ` set ts - set objectPrototype"
    and p: "p = (k, sumInOrder (map amount (filter (\<lambda>t. categoryName t = k) ts)))"
    by auto
  from k have "k \<in> set (map name (categoryBreakdown ts))"
    by (simp only: set_names)
  then obtain g where g: "g \<in> set (categoryBreakdown ts)" and n: "name g = k"
    by auto
  with group_facts [OF g] p
  show "p \<in> (\<lambda>g. (name g, value g)) ` set (categoryBreakdown ts)"
    by (auto simp add: image_iff intro!: bexI [of _ g])
qed

lemma name_value_pairs_perm:
  assumes "mset ts' = mset ts"
    and "sum_list (map (\<lambda>t. \<bar>amount t\<bar>) ts) < 9007199254740992"
  shows "(\<lambda>g. (name g, value g)) ` set (categoryBreakdown ts')
       = (\<lambda>g. (name g, value g)) ` set (categoryBreakdown ts)"
proof -
  from assms(1) have s: "set ts' = set ts" by (rule mset_eq_setD)
  have "sum_list (map (\<lambda>t. \<bar>amount t\<bar>) ts') = sum_list (map (\<lambda>t. \<bar>amount t\<bar>) ts)"
    using assms(1) by (metis mset_map sum_mset_sum_list)
  with assms(2) have b': "sum_list (map (\<lambda>t. \<bar>amount t\<bar>) ts') < 9007199254740992"
    by simp
  have "sumInOrder (map amount (filter P ts')) = sumInOrder (map amount (filter P ts))" for P
    by (simp add: sumInOrder_filter_exact [OF b'] sumInOrder_filter_exact [OF assms(2)]
        sum_list_filter_mset assms(1))
  with s show ?thesis
    by (simp add: name_value_pairs)
qed






text \<open>
  C9 (the code departs from the claim): an expense of 100 whose category is named
  \<open>constructor\<close> finds the inherited property of that name in the plain object, so no
  group is created for it: the breakdown is empty and the sum of its values is 0, where
  the sum of the amounts is 100.
\<close>

theorem inherited_name_group_lost:
  "categoryBreakdown [expenseRow (linked ''constructor'' (Some ''#111111'')) 100] = []
   \<and> sum_list (map value (categoryBreakdown [expenseRow (linked ''constructor'' (Some ''#111111'')) 100])) = 0
   \<and> sum_list (map amount [expenseRow (linked ''constructor'' (Some ''#111111'')) 100]) = 100"
  by code_simp

text \<open>
  C10 (as stated it fails): the total of a group is added in double arithmetic, in the
  order of the rows, so a permutation can change it: three rows with no category and
  the amounts \<open>2^53\<close>, 1 and 1 give the total \<open>2^53\<close> in that order (each 1 is lost to
  rounding) and \<open>2^53 + 2\<close> with the two small amounts first.
\<close>

theorem order_changes_total:
  "map value (categoryBreakdown [expenseRow None 9007199254740992, expenseRow None 1,
                                 expenseRow None 1]) = [9007199254740992]
   \<and> map value (categoryBreakdown [expenseRow None 1, expenseRow None 1,
                                   expenseRow None 9007199254740992]) = [9007199254740994]"
  by code_simp

text \<open>
  C10, amended: the colour of each group of the breakdown is that of the first row of
  its category name in the order of the input: the colour of the category of that row
  when it has one (and it is not the empty text), the constant \<open>#8884d8\<close> otherwise.
  Rows that come later never change the colour of a group that exists. A permutation of
  the input can change a colour, as the two orders of the two \<open>Food\<close> rows show; it
  leaves every group with its name and total where the amounts of the list add up to
  less than \<open>2^53\<close> in absolute value, so that the sums are exact.
\<close>

theorem group_color_from_first_row:
  "(\<forall>g \<in> set (categoryBreakdown ts).
      \<exists>t. find (\<lambda>t. categoryName t = name g) ts = Some t \<and> color g = colorOrDefault t)
   \<and> (\<forall>g \<in> set (categoryBreakdown (ts @ us)). \<forall>g' \<in> set (categoryBreakdown ts).
        name g' = name g \<longrightarrow> color g' = color g)
   \<and> (mset ts' = mset ts \<and> sum_list (map (\<lambda>t. \<bar>amount t\<bar>) ts) < 9007199254740992 \<longrightarrow>
        (\<lambda>g. (name g, value g)) ` set (categoryBreakdown ts')
        = (\<lambda>g. (name g, value g)) ` set (categoryBreakdown ts))
   \<and> map color (categoryBreakdown [expenseRow (linked ''Food'' (Some ''#111111'')) 300,
                                     expenseRow (linked ''Food'' (Some ''#222222'')) 30]) = [''#111111'']
   \<and> map color (categoryBreakdown [expenseRow (linked ''Food'' (Some ''#222222'')) 30,
                                     expenseRow (linked ''Food'' (Some ''#111111'')) 300]) = [''#222222'']"
proof (intro conjI)
  show "\<forall>g \<in> set (categoryBreakdown ts).
      \<exists>t. find (\<lambda>t. categoryName t = name g) ts = Some t \<and> color g = colorOrDefault t"
    using group_facts by blast
  show "\<forall>g \<in> set (categoryBreakdown (ts @ us)). \<forall>g' \<in> set (categoryBreakdown ts).
        name g' = name g \<longrightarrow> color g' = color g"
  proof (intro ballI impI)
    fix g g'
    assume g: "g \<in> set (categoryBreakdown (ts @ us))" and g': "g' \<in> set (categoryBreakdown ts)"
      and n: "name g' = name g"
    from group_facts [OF g'] n obtain t
      where t: "find (\<lambda>t. categoryName t = name g) ts = Some t" and c': "color g' = colorOrDefault t"
      by auto
    from t have "find (\<lambda>t. categoryName t = name g) (ts @ us) = Some t"
      by (simp add: find_append_first)
    with group_facts [OF g] have "color g = colorOrDefault t"
      by auto
    with c' show "color g' = color g" by simp
  qed
  show "mset ts' = mset ts \<and> sum_list (map (\<lambda>t. \<bar>amount t\<bar>) ts) < 9007199254740992 \<longrightarrow>
        (\<lambda>g. (name g, value g)) ` set (categoryBreakdown ts')
        = (\<lambda>g. (name g, value g)) ` set (categoryBreakdown ts)"
    using name_value_pairs_perm by blast
  show "map color (categoryBreakdown [expenseRow (linked ''Food'' (Some ''#111111'')) 300,
                                     expenseRow (linked ''Food'' (Some ''#222222'')) 30]) = [''#111111'']"
    by code_simp
  show "map color (categoryBreakdown [expenseRow (linked ''Food'' (Some ''#222222'')) 30,
                                     expenseRow (linked ''Food'' (Some ''#111111'')) 300]) = [''#222222'']"
    by code_simp
qed

theorem group_color_from_first_row_witness:
  "categoryBreakdown [expenseRow None 100, expenseRow (linked ''Food'' None) 300,
                      expenseRow (linked ''Food'' (Some ''#222222'')) 30]
     = [\<lparr>name = ''Lain-lain'', value = 100, color = ''#8884d8''\<rparr>,
        \<lparr>name = ''Food'', value = 330, color = ''#8884d8''\<rparr>]
   \<and> (\<lambda>g. (name g, value g)) ` set (categoryBreakdown
        [expenseRow (linked ''Food'' (Some ''#222222'')) 30, expenseRow None 100,
         expenseRow (linked ''Food'' None) 300])
     = {(''Lain-lain'', 100), (''Food'', 330)}"
proof -
  have v: "categoryBreakdown [expenseRow None 100, expenseRow (linked ''Food'' None) 300,
                      expenseRow (linked ''Food'' (Some ''#222222'')) 30]
     = [\<lparr>name = ''Lain-lain'', value = 100, color = ''#8884d8''\<rparr>,
        \<lparr>name = ''Food'', value = 330, color = ''#8884d8''\<rparr>]"
    by code_simp
  have m: "mset [expenseRow (linked ''Food'' (Some ''#222222'')) 30, expenseRow None 100,
                 expenseRow (linked ''Food'' None) 300]
         = mset [expenseRow None 100, expenseRow (linked ''Food'' None) 300,
                 expenseRow (linked ''Food'' (Some ''#222222'')) 30]"
    by (simp add: add.commute)
  have b: "sum_list (map (\<lambda>t. \<bar>amount t\<bar>)
             [expenseRow None 100, expenseRow (linked ''Food'' None) 300,
              expenseRow (linked ''Food'' (Some ''#222222'')) 30]) < 9007199254740992"
    by (simp add: expenseRow_def)
  note T = group_color_from_first_row
    [of "[expenseRow None 100, expenseRow (linked ''Food'' None) 300,
          expenseRow (linked ''Food'' (Some ''#222222'')) 30]" "[]"
        "[expenseRow (linked ''Food'' (Some ''#222222'')) 30, expenseRow None 100,
          expenseRow (linked ''Food'' None) 300]"]
  note p = T [THEN conjunct2, THEN conjunct2, THEN conjunct1, THEN mp, OF conjI, OF m b]
  from p v show ?thesis by simp
qed
section \<open>The trailing series\<close>

lemma monthIndex_addMonths: "monthIndex (local (addMonths t n)) = monthIndex (local t) + n"
  by (simp add: addMonths_def monthIndex_def Let_def)

lemma monthIndex_subMonths: "monthIndex (local (subMonths t n)) = monthIndex (local t) - int n"
  by (simp add: subMonths_def monthIndex_addMonths)

lemma dmonth_subMonths:
  "dmonth (local (subMonths t n)) = nat ((monthIndex (local t) - int n) mod 12) + 1"
  by (simp add: subMonths_def addMonths_def Let_def)

lemma dyear_subMonths:
  "dyear (local (subMonths t n)) = (monthIndex (local t) - int n) div 12"
  by (simp add: subMonths_def addMonths_def Let_def)

lemma monthlyResults_nth:
  "i < 6 \<Longrightarrow> monthlyResults tz clock uid s ! i = monthQuery tz (subMonths (clock i) (5 - i)) uid s"
  by (simp add: monthlyResults_def rev_nth)

lemma fst_fetchReportData:
  "fst (fetchReportData tz clock uid s) = summaryData clock (monthlyResults tz clock uid s)"
  by (simp add: fetchReportData_def Let_def)

lemma series_nth:
  "i < 6 \<Longrightarrow>
   fst (fetchReportData tz clock uid s) ! i =
     \<lparr>month = format_MMM localeID (subMonths (clock (6 + i)) (5 - i)),
      income = sumOfType ''income'' (data (monthQuery tz (subMonths (clock i) (5 - i)) uid s)),
      expense = sumOfType ''expense'' (data (monthQuery tz (subMonths (clock i) (5 - i)) uid s))\<rparr>"
  by (simp add: fst_fetchReportData summaryData_nth length_monthlyResults monthlyResults_nth)

text \<open>
  The shape of the series, for every store and zone: it has six entries; with a clock
  that shows the reading \<open>now\<close> at every call, entry \<open>i\<close> is labelled with the name of
  the calendar month \<open>now - 5 + i\<close> (months counted by \<open>monthIndex\<close>) and holds the income
  and the expense of the batch that the query of that month returns, in that order; and
  over any list of batches, an entry whose batch has no rows (or no data) has income 0
  and expense 0.
\<close>

lemma series_entries:
  "length (fst (fetchReportData tz clock uid s)) = 6
   \<and> (\<forall>i < 6.
        month (fst (fetchReportData tz (steadyClock now) uid s) ! i)
          = localeID ! nat ((monthIndex (local now) - 5 + int i) mod 12)
        \<and> income (fst (fetchReportData tz (steadyClock now) uid s) ! i)
          = sumOfType ''income'' (data (monthQuery tz (subMonths now (5 - i)) uid s))
        \<and> expense (fst (fetchReportData tz (steadyClock now) uid s) ! i)
          = sumOfType ''expense'' (data (monthQuery tz (subMonths now (5 - i)) uid s))
        \<and> monthIndex (local (subMonths now (5 - i))) = monthIndex (local now) - 5 + int i)
   \<and> length (summaryData clock results) = length results
   \<and> (\<forall>i < length results.
        data (results ! i) = None \<or> data (results ! i) = Some [] \<longrightarrow>
        income (summaryData clock results ! i) = 0 \<and> expense (summaryData clock results ! i) = 0)"
proof (intro conjI allI impI)
  show "length (fst (fetchReportData tz clock uid s)) = 6"
    by (simp add: fst_fetchReportData length_summaryData length_monthlyResults)
  show "length (summaryData clock results) = length results"
    by (rule length_summaryData)
next
  fix i :: nat
  assume i: "i < 6"
  then have e: "monthIndex (local now) - int (5 - i) = monthIndex (local now) - 5 + int i"
    by simp
  show "month (fst (fetchReportData tz (steadyClock now) uid s) ! i)
          = localeID ! nat ((monthIndex (local now) - 5 + int i) mod 12)"
  proof -
    have "dmonth (local (subMonths now (5 - i))) = nat ((monthIndex (local now) - 5 + int i) mod 12) + 1"
      by (simp only: dmonth_subMonths e)
    then show ?thesis
      using i by (simp add: series_nth steadyClock_def format_MMM_def)
  qed
  show "income (fst (fetchReportData tz (steadyClock now) uid s) ! i)
          = sumOfType ''income'' (data (monthQuery tz (subMonths now (5 - i)) uid s))"
    using i by (simp add: series_nth steadyClock_def)
  show "expense (fst (fetchReportData tz (steadyClock now) uid s) ! i)
          = sumOfType ''expense'' (data (monthQuery tz (subMonths now (5 - i)) uid s))"
    using i by (simp add: series_nth steadyClock_def)
  show "monthIndex (local (subMonths now (5 - i))) = monthIndex (local now) - 5 + int i"
    by (simp add: monthIndex_subMonths e)
next
  fix i :: nat
  assume i: "i < length results"
    and d: "data (results ! i) = None \<or> data (results ! i) = Some []"
  from d show "income (summaryData clock results ! i) = 0"
    using i by (auto simp add: summaryData_nth sumOfType_None sumOfType_Some)
  from d show "expense (summaryData clock results ! i) = 0"
    using i by (auto simp add: summaryData_nth sumOfType_None sumOfType_Some)
qed

text \<open>
  The clock is read again at every turn of the loop and for every label. When midnight
  of 1 June 2024 passes after the third reading, the batches are those of December,
  January, February, April, May and June under the labels of January to June: the
  income of 50 dated in March is in no entry.
\<close>

lemma moving_clock_skips_month:
  "fst (fetchReportData (fixedOffset 0) midnightClock ''u1''
     (storeOf [txRow ''income'' 50 (ymd 2024 3 15)]))
   = [\<lparr>month = ''Jan'', income = 0, expense = 0\<rparr>, \<lparr>month = ''Feb'', income = 0, expense = 0\<rparr>,
      \<lparr>month = ''Mar'', income = 0, expense = 0\<rparr>, \<lparr>month = ''Apr'', income = 0, expense = 0\<rparr>,
      \<lparr>month = ''Mei'', income = 0, expense = 0\<rparr>, \<lparr>month = ''Jun'', income = 0, expense = 0\<rparr>]"
  by code_simp

text \<open>
  C6 (the code departs from the claim): the series has its six entries, in the order
  of the months, but a month with no transactions does not always show 0. In Jakarta
  (UTC+7), with the clock at 2024-05-15 and one income of 100 dated 2024-04-30, no row
  is dated in May, yet the entry of May shows an income of 100: the lower bound of May,
  written in UTC, reads \<open>2024-04-30T17:00:00.000Z\<close> and lets the last day of April in.
  In a UTC runtime the same store gives 0 for May.
\<close>

theorem empty_month_not_zero:
  "fst (fetchReportData (fixedOffset 420) (steadyClock (noonOn (ymd 2024 5 15))) ''u1''
     (storeOf [txRow ''income'' 100 (ymd 2024 4 30)]))
   = [\<lparr>month = ''Des'', income = 0, expense = 0\<rparr>, \<lparr>month = ''Jan'', income = 0, expense = 0\<rparr>,
      \<lparr>month = ''Feb'', income = 0, expense = 0\<rparr>, \<lparr>month = ''Mar'', income = 0, expense = 0\<rparr>,
      \<lparr>month = ''Apr'', income = 100, expense = 0\<rparr>, \<lparr>month = ''Mei'', income = 100, expense = 0\<rparr>]
   \<and> fst (fetchReportData (fixedOffset 0) (steadyClock (noonOn (ymd 2024 5 15))) ''u1''
     (storeOf [txRow ''income'' 100 (ymd 2024 4 30)]))
   = [\<lparr>month = ''Des'', income = 0, expense = 0\<rparr>, \<lparr>month = ''Jan'', income = 0, expense = 0\<rparr>,
      \<lparr>month = ''Feb'', income = 0, expense = 0\<rparr>, \<lparr>month = ''Mar'', income = 0, expense = 0\<rparr>,
      \<lparr>month = ''Apr'', income = 100, expense = 0\<rparr>, \<lparr>month = ''Mei'', income = 0, expense = 0\<rparr>]"
  by code_simp

text \<open>
  C7 (the code departs from the claim): the bounds of a month are its first and last
  instants in the zone of the runtime, written in UTC. In Jakarta (UTC+7) the lower
  bound of May 2024 reads \<open>2024-04-30T17:00:00.000Z\<close> and the upper bound of April is
  \<open>2024-04-30T16:59:59.999Z\<close>, so an income of 100 dated 2024-04-30 is in the batch of
  April and in that of May: the incomes of the series add up to 200, where the income
  of the six months is 100.
\<close>

theorem boundary_day_counted_twice:
  "map income (fst (fetchReportData (fixedOffset 420) (steadyClock (noonOn (ymd 2024 5 15))) ''u1''
     (storeOf [txRow ''income'' 100 (ymd 2024 4 30)]))) = [0, 0, 0, 0, 100, 100]
   \<and> sum_list (map income (fst (fetchReportData (fixedOffset 420) (steadyClock (noonOn (ymd 2024 5 15))) ''u1''
     (storeOf [txRow ''income'' 100 (ymd 2024 4 30)])))) = 200
   \<and> sum_list (map amount [txRow ''income'' 100 (ymd 2024 4 30)]) = 100"
  by code_simp

section \<open>The clock\<close>

lemma startOfMonth_same_month:
  "dyear (local a) = dyear (local b) \<Longrightarrow> dmonth (local a) = dmonth (local b) \<Longrightarrow>
   startOfMonth a = startOfMonth b"
  by (cases "local a"; cases "local b") (simp add: startOfMonth_def)

lemma endOfMonth_same_month:
  "dyear (local a) = dyear (local b) \<Longrightarrow> dmonth (local a) = dmonth (local b) \<Longrightarrow>
   endOfMonth a = endOfMonth b"
  by (cases "local a"; cases "local b") (simp add: endOfMonth_def)

lemma subMonths_same_month:
  assumes "dyear (local a) = dyear (local b)" and "dmonth (local a) = dmonth (local b)"
  shows "startOfMonth (subMonths a n) = startOfMonth (subMonths b n)"
    and "endOfMonth (subMonths a n) = endOfMonth (subMonths b n)"
    and "format_MMM l (subMonths a n) = format_MMM l (subMonths b n)"
proof -
  from assms have m: "monthIndex (local a) = monthIndex (local b)"
    by (simp add: monthIndex_def)
  then have y: "dyear (local (subMonths a n)) = dyear (local (subMonths b n))"
    and mo: "dmonth (local (subMonths a n)) = dmonth (local (subMonths b n))"
    by (simp_all add: dyear_subMonths dmonth_subMonths)
  from y mo show "startOfMonth (subMonths a n) = startOfMonth (subMonths b n)"
    by (rule startOfMonth_same_month)
  from y mo show "endOfMonth (subMonths a n) = endOfMonth (subMonths b n)"
    by (rule endOfMonth_same_month)
  from mo show "format_MMM l (subMonths a n) = format_MMM l (subMonths b n)"
    by (simp add: format_MMM_def)
qed

lemma monthQuery_same_month:
  "dyear (local a) = dyear (local b) \<Longrightarrow> dmonth (local a) = dmonth (local b) \<Longrightarrow>
   monthQuery tz (subMonths a n) uid s = monthQuery tz (subMonths b n) uid s"
proof -
  assume y: "dyear (local a) = dyear (local b)" and m: "dmonth (local a) = dmonth (local b)"
  show ?thesis
    unfolding monthQuery_def
    by (simp only: subMonths_same_month(1) [OF y m] subMonths_same_month(2) [OF y m])
qed

text \<open>
  C5 (as stated it fails): no aggregation takes a reference date; each reads the clock
  with \<open>new Date()\<close>. Over the same rows, a run on 2024-05-15 reports an expense of 400
  for the month and a run on 2024-06-15 reports 0.
\<close>

theorem clock_read_implicitly:
  "totalExpense (fetchSummaryData (fixedOffset 0) (noonOn (ymd 2024 5 15)) ''u1''
      (storeOf [txRow ''expense'' 400 (ymd 2024 5 12)])) = 400
   \<and> totalExpense (fetchSummaryData (fixedOffset 0) (noonOn (ymd 2024 6 15)) ''u1''
      (storeOf [txRow ''expense'' 400 (ymd 2024 5 12)])) = 0"
  by code_simp

text \<open>
  C5, amended: each aggregation is a function of the rows of the store, of the zone of
  the runtime and of the readings of the clock, which it takes by itself. Two runs over
  the same rows in the same zone give the same output whenever every reading of the
  clock falls in the same calendar month (same year, same month) in both runs; the
  point-in-time totals do not depend on the clock or the zone at all.
\<close>

theorem same_month_same_output:
  "(dyear (local now) = dyear (local now') \<and> dmonth (local now) = dmonth (local now') \<longrightarrow>
      fetchSummaryData tz now uid s = fetchSummaryData tz now' uid s)
   \<and> ((\<forall>k. dyear (local (clock k)) = dyear (local (clock' k))
            \<and> dmonth (local (clock k)) = dmonth (local (clock' k))) \<longrightarrow>
      fetchReportData tz clock uid s = fetchReportData tz clock' uid s)
   \<and> totalBankBalance (fetchSummaryData tz now uid s) = totalBankBalance (fetchSummaryData tz' now' uid s)
   \<and> totalAssets (fetchSummaryData tz now uid s) = totalAssets (fetchSummaryData tz' now' uid s)"
proof (intro conjI impI)
  assume "dyear (local now) = dyear (local now') \<and> dmonth (local now) = dmonth (local now')"
  then have "startOfMonth now = startOfMonth now'"
    by (intro startOfMonth_same_month) simp_all
  then show "fetchSummaryData tz now uid s = fetchSummaryData tz now' uid s"
    by (simp only: fetchSummaryData_def summaryQuery_def)
next
  assume a: "\<forall>k. dyear (local (clock k)) = dyear (local (clock' k))
            \<and> dmonth (local (clock k)) = dmonth (local (clock' k))"
  then have q: "monthQuery tz (subMonths (clock k) n) uid s = monthQuery tz (subMonths (clock' k) n) uid s"
    for k n
    by (intro monthQuery_same_month) simp_all
  from a have f: "format_MMM localeID (subMonths (clock k) n) = format_MMM localeID (subMonths (clock' k) n)"
    for k n
    by (intro subMonths_same_month(3)) simp_all
  have r: "monthlyResults tz clock uid s = monthlyResults tz clock' uid s"
    unfolding monthlyResults_def by (simp only: q)
  have m: "summaryData clock results = summaryData clock' results" for results
    unfolding summaryData_def by (simp only: f)
  from a have "startOfMonth (clock 12) = startOfMonth (clock' 12)"
    by (intro startOfMonth_same_month) simp_all
  then have p: "pieQuery tz (clock 12) uid s = pieQuery tz (clock' 12) uid s"
    by (simp only: pieQuery_def)
  show "fetchReportData tz clock uid s = fetchReportData tz clock' uid s"
    unfolding fetchReportData_def by (simp only: r m p)
next
  show "totalBankBalance (fetchSummaryData tz now uid s) = totalBankBalance (fetchSummaryData tz' now' uid s)"
    by (simp add: fetchSummaryData_def Let_def)
  show "totalAssets (fetchSummaryData tz now uid s) = totalAssets (fetchSummaryData tz' now' uid s)"
    by (simp add: fetchSummaryData_def Let_def)
qed

theorem same_month_same_output_witness:
  "fetchSummaryData (fixedOffset 420) (noonOn (ymd 2024 5 15)) ''u1''
      (storeOf [txRow ''expense'' 400 (ymd 2024 5 12)])
   = fetchSummaryData (fixedOffset 420) \<lparr>local = ymd 2024 5 31, msOfDay = 0\<rparr> ''u1''
      (storeOf [txRow ''expense'' 400 (ymd 2024 5 12)])
   \<and> fetchReportData (fixedOffset 420) (steadyClock (noonOn (ymd 2024 5 15))) ''u1''
      (storeOf [txRow ''expense'' 400 (ymd 2024 5 12)])
   = fetchReportData (fixedOffset 420) (steadyClock \<lparr>local = ymd 2024 5 31, msOfDay = 0\<rparr>) ''u1''
      (storeOf [txRow ''expense'' 400 (ymd 2024 5 12)])"
proof -
  note T = same_month_same_output
    [where now = "noonOn (ymd 2024 5 15)" and now' = "\<lparr>local = ymd 2024 5 31, msOfDay = 0\<rparr>"
       and clock = "steadyClock (noonOn (ymd 2024 5 15))"
       and clock' = "steadyClock \<lparr>local = ymd 2024 5 31, msOfDay = 0\<rparr>"
       and tz = "fixedOffset 420" and uid = "''u1''" and s = "storeOf [txRow ''expense'' 400 (ymd 2024 5 12)]"]
  have h1: "dyear (local (noonOn (ymd 2024 5 15))) = dyear (local \<lparr>local = ymd 2024 5 31, msOfDay = 0\<rparr>)
      \<and> dmonth (local (noonOn (ymd 2024 5 15))) = dmonth (local \<lparr>local = ymd 2024 5 31, msOfDay = 0\<rparr>)"
    by (simp add: noonOn_def ymd_def)
  have h2: "\<forall>k. dyear (local (steadyClock (noonOn (ymd 2024 5 15)) k))
        = dyear (local (steadyClock \<lparr>local = ymd 2024 5 31, msOfDay = 0\<rparr> k))
      \<and> dmonth (local (steadyClock (noonOn (ymd 2024 5 15)) k))
        = dmonth (local (steadyClock \<lparr>local = ymd 2024 5 31, msOfDay = 0\<rparr> k))"
    by (simp add: steadyClock_def noonOn_def ymd_def)
  note a = T [THEN conjunct1, THEN mp, OF h1]
  note b = T [THEN conjunct2, THEN conjunct1, THEN mp, OF h2]
  show ?thesis
    by (intro conjI) (rule a, rule b)
qed

section \<open>A runtime in UTC\<close>

text \<open>
  Where the zone of the runtime is UTC, the text of a bound shows the local date, and
  the batch of a month holds the rows dated in that calendar month and no others.
  There the incomes of the trailing series add up to the income of the six calendar
  months, each row counted once, and likewise the expenses; and the monthly totals of
  the dashboard are the sums over the rows dated in the month of the clock or in any
  later month. The dates of the rows are calendar dates.
\<close>

lemma isoDate_utc_start: "isoDate (fixedOffset 0) (startOfMonth t) = (local t)\<lparr>dday := 1\<rparr>"
  by (simp add: isoDate_def startOfMonth_def fixedOffset_def)

lemma isoDate_utc_end:
  "isoDate (fixedOffset 0) (endOfMonth t) = (local t)\<lparr>dday := daysInMonth (dyear (local t)) (dmonth (local t))\<rparr>"
  by (simp add: isoDate_def endOfMonth_def fixedOffset_def)

lemma within_month:
  assumes "validDate r"
  shows "(date_le (l\<lparr>dday := 1\<rparr>) r \<and> date_le r (l\<lparr>dday := daysInMonth (dyear l) (dmonth l)\<rparr>))
         = (dyear r = dyear l \<and> dmonth r = dmonth l)"
proof
  assume a: "date_le (l\<lparr>dday := 1\<rparr>) r \<and> date_le r (l\<lparr>dday := daysInMonth (dyear l) (dmonth l)\<rparr>)"
  then have "dyear l \<le> dyear r" "dyear r \<le> dyear l"
    by (auto simp add: date_le_def)
  then have y: "dyear r = dyear l" by simp
  with a have "dmonth l \<le> dmonth r" "dmonth r \<le> dmonth l"
    by (auto simp add: date_le_def)
  with y show "dyear r = dyear l \<and> dmonth r = dmonth l" by simp
next
  assume e: "dyear r = dyear l \<and> dmonth r = dmonth l"
  from assms have "1 \<le> dday r" "dday r \<le> daysInMonth (dyear r) (dmonth r)"
    by (simp_all add: validDate_def)
  with e show "date_le (l\<lparr>dday := 1\<rparr>) r \<and> date_le r (l\<lparr>dday := daysInMonth (dyear l) (dmonth l)\<rparr>)"
    by (simp add: date_le_def)
qed

lemma same_month_index:
  assumes "validDate r"
  shows "(dyear r = k div 12 \<and> dmonth r = nat (k mod 12) + 1) = (monthIndex r = k)"
proof -
  from assms have m: "1 \<le> dmonth r" "dmonth r \<le> 12"
    by (simp_all add: validDate_def)
  show ?thesis
  proof
    assume "dyear r = k div 12 \<and> dmonth r = nat (k mod 12) + 1"
    then show "monthIndex r = k"
      by (simp add: monthIndex_def)
  next
    assume "monthIndex r = k"
    then have k: "k = dyear r * 12 + (int (dmonth r) - 1)"
      by (simp add: monthIndex_def)
    from m have "0 \<le> int (dmonth r) - 1" "int (dmonth r) - 1 < 12"
      by simp_all
    then have "k div 12 = dyear r" "k mod 12 = int (dmonth r) - 1"
      unfolding k by simp_all
    with m show "dyear r = k div 12 \<and> dmonth r = nat (k mod 12) + 1"
      by simp
  qed
qed

lemma in_month_utc:
  assumes "validDate r"
  shows "(date_le (isoDate (fixedOffset 0) (startOfMonth (subMonths now j))) r
          \<and> date_le r (isoDate (fixedOffset 0) (endOfMonth (subMonths now j))))
         = (monthIndex r = monthIndex (local now) - int j)"
proof -
  have "(date_le (isoDate (fixedOffset 0) (startOfMonth (subMonths now j))) r
          \<and> date_le r (isoDate (fixedOffset 0) (endOfMonth (subMonths now j))))
      = (dyear r = dyear (local (subMonths now j)) \<and> dmonth r = dmonth (local (subMonths now j)))"
    by (simp only: isoDate_utc_start isoDate_utc_end within_month [OF assms])
  also have "\<dots> = (monthIndex r = monthIndex (local now) - int j)"
    by (simp only: dyear_subMonths dmonth_subMonths same_month_index [OF assms])
  finally show ?thesis .
qed

lemma month_batch_utc:
  assumes "\<forall>t \<in> set (transactions s). validDate (transaction_date t)"
  shows "sumOfType k (data (monthQuery (fixedOffset 0) (subMonths now j) uid s))
         = sum_list (map amount
             (filter (\<lambda>t. (user_id t = uid \<and> type t = Some k)
                          \<and> monthIndex (transaction_date t) = monthIndex (local now) - int j)
                (transactions s)))"
proof -
  have "filter (\<lambda>t. type t = Some k)
          (filter (\<lambda>t. user_id t = uid
             \<and> date_le (isoDate (fixedOffset 0) (startOfMonth (subMonths now j))) (transaction_date t)
             \<and> date_le (transaction_date t) (isoDate (fixedOffset 0) (endOfMonth (subMonths now j))))
            (transactions s))
        = filter (\<lambda>t. (user_id t = uid \<and> type t = Some k)
                     \<and> monthIndex (transaction_date t) = monthIndex (local now) - int j)
            (transactions s)"
    unfolding filter_filter
    by (rule filter_cong) (use assms in \<open>auto simp add: in_month_utc\<close>)
  then show ?thesis
    by (simp only: monthQuery_def select_def sumOfType_Some response.simps)
qed

lemma six_months_sum:
  "sum_list (map (\<lambda>i. sum_list (map amount (filter (\<lambda>t. q t \<and> mi t = M - int (5 - i)) ts))) [0..<6])
   = sum_list (map amount (filter (\<lambda>t. q t \<and> M - 5 \<le> mi t \<and> mi t \<le> M) ts))"
  for M :: int
proof -
  have u: "[0..<6] = [0, 1, 2, 3, 4, 5::nat]"
    by (simp add: upt_rec)
  show ?thesis
    unfolding u by (induction ts) auto
qed


lemma series_incomes:
  "map income (fst (fetchReportData tz (steadyClock now) uid s))
   = map (\<lambda>i. sumOfType ''income'' (data (monthQuery tz (subMonths now (5 - i)) uid s))) [0..<6]"
  by (rule nth_equalityI)
    (simp_all add: fst_fetchReportData length_summaryData length_monthlyResults
      summaryData_nth monthlyResults_nth steadyClock_def)

lemma series_expenses:
  "map expense (fst (fetchReportData tz (steadyClock now) uid s))
   = map (\<lambda>i. sumOfType ''expense'' (data (monthQuery tz (subMonths now (5 - i)) uid s))) [0..<6]"
  by (rule nth_equalityI)
    (simp_all add: fst_fetchReportData length_summaryData length_monthlyResults
      summaryData_nth monthlyResults_nth steadyClock_def)

lemma trailing_series_sum_utc:
  assumes "\<forall>t \<in> set (transactions s). validDate (transaction_date t)"
  shows "sum_list (map income (fst (fetchReportData (fixedOffset 0) (steadyClock now) uid s)))
         = sum_list (map amount
             (filter (\<lambda>t. (user_id t = uid \<and> type t = Some ''income'')
                          \<and> monthIndex (local now) - 5 \<le> monthIndex (transaction_date t)
                          \<and> monthIndex (transaction_date t) \<le> monthIndex (local now))
                (transactions s)))"
    and "sum_list (map expense (fst (fetchReportData (fixedOffset 0) (steadyClock now) uid s)))
         = sum_list (map amount
             (filter (\<lambda>t. (user_id t = uid \<and> type t = Some ''expense'')
                          \<and> monthIndex (local now) - 5 \<le> monthIndex (transaction_date t)
                          \<and> monthIndex (transaction_date t) \<le> monthIndex (local now))
                (transactions s)))"
  by (simp_all only: series_incomes series_expenses month_batch_utc [OF assms] six_months_sum)

lemma from_month_on:
  assumes "validDate r" and "1 \<le> dmonth l" and "dmonth l \<le> 12"
  shows "date_le (l\<lparr>dday := 1\<rparr>) r = (monthIndex l \<le> monthIndex r)"
proof -
  from assms(1) have r: "1 \<le> dmonth r" "dmonth r \<le> 12" "1 \<le> dday r"
    by (simp_all add: validDate_def)
  show ?thesis
  proof (cases "dyear l = dyear r")
    case True
    with r assms(2,3) show ?thesis
      by (auto simp add: date_le_def monthIndex_def)
  next
    case False
    with r assms(2,3) show ?thesis
      by (auto simp add: date_le_def monthIndex_def)
  qed
qed

lemma monthly_totals_utc:
  assumes "\<forall>t \<in> set (transactions s). validDate (transaction_date t)"
    and "1 \<le> dmonth (local now)" and "dmonth (local now) \<le> 12"
  shows "totalIncome (fetchSummaryData (fixedOffset 0) now uid s)
         = sum_list (map amount
             (filter (\<lambda>t. (user_id t = uid \<and> type t = Some ''income'')
                          \<and> monthIndex (local now) \<le> monthIndex (transaction_date t))
                (transactions s)))"
    and "totalExpense (fetchSummaryData (fixedOffset 0) now uid s)
         = sum_list (map amount
             (filter (\<lambda>t. (user_id t = uid \<and> type t = Some ''expense'')
                          \<and> monthIndex (local now) \<le> monthIndex (transaction_date t))
                (transactions s)))"
proof -
  have f: "filter (\<lambda>t. type t = Some k)
          (filter (\<lambda>t. user_id t = uid
             \<and> date_le (isoDate (fixedOffset 0) (startOfMonth now)) (transaction_date t)) (transactions s))
        = filter (\<lambda>t. (user_id t = uid \<and> type t = Some k)
                     \<and> monthIndex (local now) \<le> monthIndex (transaction_date t)) (transactions s)"
    for k
  proof -
    have p: "date_le ((local now)\<lparr>dday := 1\<rparr>) (transaction_date t)
        = (monthIndex (local now) \<le> monthIndex (transaction_date t))"
      if "t \<in> set (transactions s)" for t
      using that assms by (intro from_month_on) auto
    show ?thesis
      unfolding filter_filter isoDate_utc_start
      by (rule filter_cong) (auto simp del: One_nat_def simp add: p)
  qed
  show "totalIncome (fetchSummaryData (fixedOffset 0) now uid s)
         = sum_list (map amount
             (filter (\<lambda>t. (user_id t = uid \<and> type t = Some ''income'')
                          \<and> monthIndex (local now) \<le> monthIndex (transaction_date t))
                (transactions s)))"
    by (simp add: fetchSummaryData_def summaryQuery_def select_def sumOfType_Some f
        del: filter_filter)
  show "totalExpense (fetchSummaryData (fixedOffset 0) now uid s)
         = sum_list (map amount
             (filter (\<lambda>t. (user_id t = uid \<and> type t = Some ''expense'')
                          \<and> monthIndex (local now) \<le> monthIndex (transaction_date t))
                (transactions s)))"
    by (simp add: fetchSummaryData_def summaryQuery_def select_def sumOfType_Some f
        del: filter_filter)
qed

section \<open>The palette\<close>

text \<open>
  No colour of the breakdown is the empty text, so the fill of a cell is always the
  colour stored in its group, and \<open>COLORS\<close> is never read.
\<close>

lemma colorOrDefault_truthy: "colorOrDefault t \<noteq> []"
  by (simp add: colorOrDefault_def split: option.splits)

lemma fills_of_colored:
  "(\<And>e. e \<in> set es \<Longrightarrow> color e \<noteq> []) \<Longrightarrow>
   map (\<lambda>(index, entry). if color entry \<noteq> [] then color entry else COLORS ! (index mod length COLORS))
     (enumerate n es) = map color es"
  by (induction es arbitrary: n) simp_all

lemma palette_never_used: "cellFills (categoryBreakdown ts) = map color (categoryBreakdown ts)"
  unfolding cellFills_def
  by (rule fills_of_colored) (use group_facts colorOrDefault_truthy in metis)

section \<open>A zone with daylight saving\<close>

text \<open>
  The offset is that of the local time that is written out, not that of the moment of
  the call: in London, with the clock in June, the first day of January is written with
  the offset of the winter and keeps its date, where the first day of June is written
  an hour earlier, on the last day of May.
\<close>

lemma london_month_bounds:
  "isoDate londonIn2024 (startOfMonth (subMonths (noonOn (ymd 2024 6 15)) 5)) = ymd 2024 1 1
   \<and> isoDate londonIn2024 (startOfMonth (noonOn (ymd 2024 6 15))) = ymd 2024 5 31"
  by code_simp

end
